theory Spec2Isabelle
  imports Main
begin

section \<open>JavaScript values, objects and array helpers\<close>

text \<open>
  The records that travel between the backend, \<open>localStorage\<close> and the pages are JSON
  objects. A field value is a JSON scalar; an object is a finite map from field names to
  values, and a field that is absent reads as \<open>undefined\<close> (\<open>None\<close>). On such values
  JavaScript's \<open>===\<close> is equality, also between two \<open>undefined\<close>.
\<close>

datatype jsval = JNull | JBool bool | JNum int | JStr string

type_synonym obj = "string \<rightharpoonup> jsval"

text \<open>Truthiness, as \<open>||\<close> tests it.\<close>

fun truthy :: "jsval option \<Rightarrow> bool" where
  "truthy None = False"
| "truthy (Some JNull) = False"
| "truthy (Some (JBool b)) = b"
| "truthy (Some (JNum n)) = (n \<noteq> 0)"
| "truthy (Some (JStr s)) = (s \<noteq> [])"

definition hackathon_id :: "obj \<Rightarrow> jsval option" where
  "hackathon_id reg = reg ''hackathon_id''"

text \<open>
  \<open>Array.prototype.findIndex\<close>: the index of the first element that satisfies the
  predicate, \<open>-1\<close> when there is none. The counter is the loop index.
\<close>

fun findIndex_from :: "nat \<Rightarrow> ('a \<Rightarrow> bool) \<Rightarrow> 'a list \<Rightarrow> int" where
  "findIndex_from k p [] = - 1"
| "findIndex_from k p (x # xs) = (if p x then int k else findIndex_from (Suc k) p xs)"

definition findIndex :: "('a \<Rightarrow> bool) \<Rightarrow> 'a list \<Rightarrow> int" where
  "findIndex p xs = findIndex_from 0 p xs"

text \<open>
  \<open>Array.prototype.filter\<close> with the three-argument callback \<open>(element, index, self)\<close>.
\<close>

fun array_filter_from :: "nat \<Rightarrow> ('a \<Rightarrow> nat \<Rightarrow> 'a list \<Rightarrow> bool) \<Rightarrow> 'a list \<Rightarrow> 'a list \<Rightarrow> 'a list" where
  "array_filter_from k f self [] = []"
| "array_filter_from k f self (x # xs) =
     (if f x k self then x # array_filter_from (Suc k) f self xs
      else array_filter_from (Suc k) f self xs)"

definition array_filter :: "('a \<Rightarrow> nat \<Rightarrow> 'a list \<Rightarrow> bool) \<Rightarrow> 'a list \<Rightarrow> 'a list" where
  "array_filter f xs = array_filter_from 0 f xs xs"

section \<open>The HTTP layer, the local cache and the session\<close>

datatype http_method = GET | POST | DELETE

record request =
  req_method :: http_method
  req_url :: string
  req_body :: "obj option"

text \<open>
  A response body carries the fields the helpers read (\<open>registrations\<close>, \<open>detail\<close>) and
  the two that \<open>unregisterFromHackathon\<close> fabricates (\<open>message\<close>, \<open>success\<close>). Every
  field may be missing.
\<close>

record body =
  registrations :: "obj list option"
  detail :: "string option"
  body_message :: "string option"
  success :: "bool option"

record response =
  resp_status :: "nat option"
  resp_data :: "body option"

text \<open>
  What a \<open>catch\<close> block inspects of the thrown object: axios sets \<open>code\<close>, \<open>response\<close>
  and \<open>request\<close>; a plain \<open>new Error(msg)\<close> has only \<open>message\<close>.
\<close>

record js_error =
  code :: "string option"
  err_response :: "response option"
  err_request :: bool
  message :: string

definition Error :: "string \<Rightarrow> js_error" where
  "Error msg = \<lparr>code = None, err_response = None, err_request = False, message = msg\<rparr>"

record user =
  uid :: string

text \<open>
  The state the helpers read and write: \<open>auth.currentUser\<close>, the array stored under the
  \<open>localStorage\<close> key \<open>myRegistrations\<close> (\<open>None\<close> while the key is absent; the key is only
  ever written as \<open>JSON.stringify\<close> of an array of records, so the array itself is kept),
  and the log of the requests sent through the axios instance.
\<close>

record world =
  currentUser :: "user option"
  myRegistrations :: "obj list option"
  requests :: "request list"

text \<open>The remote side: what the axios instance resolves to (\<open>Inr\<close>) or rejects with.\<close>

type_synonym network = "request \<Rightarrow> js_error + response"

definition api_call :: "network \<Rightarrow> request \<Rightarrow> world \<Rightarrow> (js_error + response) \<times> world" where
  "api_call net rq w = (net rq, w\<lparr>requests := requests w @ [rq]\<rparr>)"

text \<open>\<open>JSON.parse(localStorage.getItem('myRegistrations') || '[]')\<close>\<close>

definition localRegistrations :: "world \<Rightarrow> obj list" where
  "localRegistrations w = (case myRegistrations w of None \<Rightarrow> [] | Some rs \<Rightarrow> rs)"

section \<open>getUserRegistrations\<close>

definition registrations_request :: request where
  "registrations_request = \<lparr>req_method = GET, req_url = ''/users/registrations'', req_body = None\<rparr>"

text \<open>\<open>response.data?.registrations || []\<close>\<close>

definition backendRegistrations :: "response \<Rightarrow> obj list" where
  "backendRegistrations r =
     (case resp_data r of
        None \<Rightarrow> []
      | Some b \<Rightarrow> (case registrations b of None \<Rightarrow> [] | Some rs \<Rightarrow> rs))"

definition uniqueRegistrations :: "obj list \<Rightarrow> obj list" where
  "uniqueRegistrations allRegistrations =
     array_filter
       (\<lambda>reg index self. int index = findIndex (\<lambda>r. hackathon_id r = hackathon_id reg) self)
       allRegistrations"

text \<open>The object \<open>{ data: { registrations: rs } }\<close>.\<close>

definition registrations_reply :: "obj list \<Rightarrow> response" where
  "registrations_reply rs =
     \<lparr>resp_status = None,
      resp_data = Some \<lparr>registrations = Some rs, detail = None, body_message = None, success = None\<rparr>\<rparr>"

definition getUserRegistrations :: "network \<Rightarrow> world \<Rightarrow> (js_error + response) \<times> world" where
  "getUserRegistrations net w =
     (case api_call net registrations_request w of
        (Inr r, w') \<Rightarrow>
          (Inr (registrations_reply
                  (uniqueRegistrations (backendRegistrations r @ localRegistrations w'))), w')
      | (Inl error, w') \<Rightarrow> (Inr (registrations_reply (localRegistrations w')), w'))"

text \<open>
  The reconciliation as the specification words it: scan the list and keep an entry
  only if no earlier entry has the same key.
\<close>

fun dedup_first :: "('a \<Rightarrow> 'k) \<Rightarrow> 'a list \<Rightarrow> 'a list" where
  "dedup_first key [] = []"
| "dedup_first key (x # xs) = x # dedup_first key (filter (\<lambda>y. key y \<noteq> key x) xs)"

section \<open>registerForHackathon\<close>

definition register_request :: "string \<Rightarrow> obj \<Rightarrow> request" where
  "register_request hid payload =
     \<lparr>req_method = POST, req_url = ''/hackathons/'' @ hid @ ''/register'', req_body = Some payload\<rparr>"

text \<open>\<open>error.response.data?.detail || fallback\<close>\<close>

definition detail_or :: "response \<Rightarrow> string \<Rightarrow> string" where
  "detail_or r fallback =
     (case resp_data r of
        None \<Rightarrow> fallback
      | Some b \<Rightarrow> (case detail b of
                    None \<Rightarrow> fallback
                  | Some d \<Rightarrow> if d = [] then fallback else d))"

text \<open>
  The \<open>catch\<close> block of \<open>registerForHackathon\<close>: the error it throws. (Below, the
  source's parameter \<open>id\<close> is written \<open>hid\<close> and \<open>data\<close> is written \<open>payload\<close>, since
  \<open>id\<close> is the identity function of HOL.)
\<close>

definition register_catch :: "js_error \<Rightarrow> js_error" where
  "register_catch error =
     (if code error = Some ''ECONNABORTED'' then Error ''Request timeout - please try again''
      else case err_response error of
        Some r \<Rightarrow>
          (if resp_status r = Some 401 then Error ''Authentication failed - please login again''
           else if resp_status r = Some 403 then Error ''Access denied - please check your permissions''
           else if resp_status r = Some 400 then Error (detail_or r ''Invalid request'')
           else if resp_status r = Some 404 then Error ''Hackathon not found''
           else if resp_status r = Some 408 then Error ''Authentication timeout - please try again''
           else Error (detail_or r ''Registration failed''))
      | None \<Rightarrow>
          (if err_request error
           then Error ''No response from server - please check your connection''
           else error))"

text \<open>
  The record written to the cache. The payload is spread last, so a field of the payload
  overrides the field of the same name written before it. \<open>now\<close> is
  \<open>new Date().toISOString()\<close>.
\<close>

definition mockRegistration :: "string \<Rightarrow> user \<Rightarrow> string \<Rightarrow> obj \<Rightarrow> obj" where
  "mockRegistration hid u now payload =
     [''id'' \<mapsto> JStr (hid @ ''_'' @ uid u),
      ''hackathon_id'' \<mapsto> JStr hid,
      ''user_id'' \<mapsto> JStr (uid u),
      ''registration_date'' \<mapsto> JStr now,
      ''status'' \<mapsto> JStr ''registered'',
      ''hackathon_title'' \<mapsto>
        (case payload ''hackathon_title'' of
           None \<Rightarrow> JStr ''Registered Hackathon''
         | Some v \<Rightarrow> if truthy (Some v) then v else JStr ''Registered Hackathon'')]
     ++ payload"

definition registerForHackathon ::
  "network \<Rightarrow> string \<Rightarrow> string \<Rightarrow> obj \<Rightarrow> world \<Rightarrow> (js_error + response) \<times> world" where
  "registerForHackathon net now hid payload w =
     (case currentUser w of
        None \<Rightarrow> (Inl (register_catch (Error ''Please login to register for hackathons'')), w)
      | Some u \<Rightarrow>
          (case api_call net (register_request hid payload) w of
             (Inl error, w') \<Rightarrow> (Inl (register_catch error), w')
           | (Inr r, w') \<Rightarrow>
               (Inr r,
                w'\<lparr>myRegistrations :=
                     Some (localRegistrations w' @ [mockRegistration hid u now payload])\<rparr>)))"

section \<open>unregisterFromHackathon\<close>

definition unregister_request :: "string \<Rightarrow> request" where
  "unregister_request hid =
     \<lparr>req_method = DELETE, req_url = ''/hackathons/'' @ hid @ ''/unregister'', req_body = None\<rparr>"

definition local_unregistered :: response where
  "local_unregistered =
     \<lparr>resp_status = None,
      resp_data = Some \<lparr>registrations = None, detail = None,
        body_message = Some ''Successfully unregistered from hackathon (local)'',
        success = Some True\<rparr>\<rparr>"

text \<open>Both branches run the same three lines on the cache.\<close>

definition remove_local :: "string \<Rightarrow> world \<Rightarrow> world" where
  "remove_local hid w =
     w\<lparr>myRegistrations :=
         Some (filter (\<lambda>reg. hackathon_id reg \<noteq> Some (JStr hid)) (localRegistrations w))\<rparr>"

definition unregisterFromHackathon ::
  "network \<Rightarrow> string \<Rightarrow> world \<Rightarrow> (js_error + response) \<times> world" where
  "unregisterFromHackathon net hid w =
     (case api_call net (unregister_request hid) w of
        (Inr r, w') \<Rightarrow> (Inr r, remove_local hid w')
      | (Inl error, w') \<Rightarrow> (Inr local_unregistered, remove_local hid w'))"

section \<open>getHackathonStatus\<close>

text \<open>
  A \<open>Date\<close> is its time value: milliseconds since the epoch, or \<open>NaN\<close> for an invalid
  date (\<open>None\<close>). The relational operators compare time values, and a comparison with
  \<open>NaN\<close> is false. \<open>now\<close> is \<open>new Date()\<close>, always valid.
\<close>

type_synonym date = "int option"

definition date_gt :: "date \<Rightarrow> date \<Rightarrow> bool" where
  "date_gt a b = (case (a, b) of (Some x, Some y) \<Rightarrow> x > y | _ \<Rightarrow> False)"

definition date_ge :: "date \<Rightarrow> date \<Rightarrow> bool" where
  "date_ge a b = (case (a, b) of (Some x, Some y) \<Rightarrow> x \<ge> y | _ \<Rightarrow> False)"

definition date_le :: "date \<Rightarrow> date \<Rightarrow> bool" where
  "date_le a b = (case (a, b) of (Some x, Some y) \<Rightarrow> x \<le> y | _ \<Rightarrow> False)"

definition getHackathonStatus :: "int \<Rightarrow> date \<Rightarrow> date \<Rightarrow> date \<Rightarrow> string" where
  "getHackathonStatus now start end' regDeadline =
     (if date_gt (Some now) end' then ''completed''
      else if date_ge (Some now) start \<and> date_le (Some now) end' then ''ongoing''
      else if date_gt (Some now) regDeadline then ''registration_closed''
      else ''upcoming'')"

definition hour_ms :: int where
  "hour_ms = 3600000"

definition day_ms :: int where
  "day_ms = 24 * hour_ms"

section \<open>Dashboard aggregation\<close>

text \<open>
  A hackathon as the dashboards read it; \<open>{}\<close> is the object with no field at all.
\<close>

record hackathon =
  title :: "string option"
  status :: "string option"
  participants :: "string list option"

definition empty_object :: hackathon where
  "empty_object = \<lparr>title = None, status = None, participants = None\<rparr>"

text \<open>\<open>h.participants?.length || 0\<close>\<close>

definition participant_count :: "hackathon \<Rightarrow> nat" where
  "participant_count h = (case participants h of None \<Rightarrow> 0 | Some ps \<Rightarrow> length ps)"

definition totalRegistrations :: "hackathon list \<Rightarrow> nat" where
  "totalRegistrations hackathons = foldl (\<lambda>sum h. sum + participant_count h) 0 hackathons"

record stats =
  stat_totalHackathons :: nat
  stat_totalRegistrations :: nat
  stat_activeHackathons :: nat
  stat_completedHackathons :: nat

text \<open>\<open>calculateStats\<close> of the faculty dashboard: the object it hands to \<open>setStats\<close>.\<close>

definition calculateStats :: "hackathon list \<Rightarrow> stats" where
  "calculateStats hackathonData =
     \<lparr>stat_totalHackathons = length hackathonData,
      stat_totalRegistrations = totalRegistrations hackathonData,
      stat_activeHackathons = length (filter (\<lambda>h. status h = Some ''ongoing'') hackathonData),
      stat_completedHackathons = length (filter (\<lambda>h. status h = Some ''completed'') hackathonData)\<rparr>"

text \<open>
  The analytics modal. \<open>hackathons[0]\<close> is \<open>undefined\<close> on an empty array, and
  \<open>|| {}\<close> replaces it. The value of the constant \<open>mostPopular\<close> is given as an
  option so that \<open>undefined\<close> and \<open>null\<close> have a place (\<open>None\<close>).
\<close>

definition first_or_empty :: "hackathon list \<Rightarrow> hackathon" where
  "first_or_empty hackathons = (case hackathons of [] \<Rightarrow> empty_object | h # _ \<Rightarrow> h)"

text \<open>The callback of the reduce; its accumulator \<open>max\<close> is written \<open>mx\<close>.\<close>

definition more_popular :: "hackathon \<Rightarrow> hackathon \<Rightarrow> hackathon" where
  "more_popular mx h = (if participant_count h > participant_count mx then h else mx)"

definition mostPopular :: "hackathon list \<Rightarrow> hackathon option" where
  "mostPopular hackathons = Some (foldl more_popular (first_or_empty hackathons) hackathons)"

section \<open>Example data\<close>

definition reg_server_h1 :: obj where
  "reg_server_h1 =
     [''hackathon_id'' \<mapsto> JStr ''h1'', ''hackathon_title'' \<mapsto> JStr ''AI Sprint (server)'']"

definition reg_server_h2 :: obj where
  "reg_server_h2 = [''hackathon_id'' \<mapsto> JStr ''h2'', ''hackathon_title'' \<mapsto> JStr ''Data Jam'']"

definition reg_cached_h1 :: obj where
  "reg_cached_h1 =
     [''hackathon_id'' \<mapsto> JStr ''h1'', ''hackathon_title'' \<mapsto> JStr ''AI Sprint (cached)'']"

definition reg_cached_h3 :: obj where
  "reg_cached_h3 = [''hackathon_id'' \<mapsto> JStr ''h3'', ''hackathon_title'' \<mapsto> JStr ''Green Hack'']"

definition ok_response :: "obj list \<Rightarrow> response" where
  "ok_response rs =
     \<lparr>resp_status = Some 200,
      resp_data = Some \<lparr>registrations = Some rs, detail = None, body_message = None, success = None\<rparr>\<rparr>"

definition server_lists :: "obj list \<Rightarrow> network" where
  "server_lists rs = (\<lambda>rq. Inr (ok_response rs))"

definition network_error :: js_error where
  "network_error =
     \<lparr>code = Some ''ERR_NETWORK'', err_response = None, err_request = True,
      message = ''Network Error''\<rparr>"

definition server_down :: network where
  "server_down = (\<lambda>rq. Inl network_error)"

definition cache_of :: "obj list \<Rightarrow> world" where
  "cache_of rs = \<lparr>currentUser = Some \<lparr>uid = ''u1''\<rparr>, myRegistrations = Some rs, requests = []\<rparr>"

definition timeout_error :: js_error where
  "timeout_error =
     \<lparr>code = Some ''ECONNABORTED'', err_response = None, err_request = True,
      message = ''timeout of 10000ms exceeded''\<rparr>"

definition error_body :: "string option \<Rightarrow> body" where
  "error_body d = \<lparr>registrations = None, detail = d, body_message = None, success = None\<rparr>"

definition error_response :: "nat \<Rightarrow> string option \<Rightarrow> response" where
  "error_response st d = \<lparr>resp_status = Some st, resp_data = Some (error_body d)\<rparr>"

definition http_error :: "nat \<Rightarrow> string option \<Rightarrow> js_error" where
  "http_error st d =
     \<lparr>code = Some ''ERR_BAD_REQUEST'', err_response = Some (error_response st d),
      err_request = True, message = ''Request failed''\<rparr>"

definition rejects_with :: "js_error \<Rightarrow> network" where
  "rejects_with e = (\<lambda>rq. Inl e)"

definition signed_out :: world where
  "signed_out = \<lparr>currentUser = None, myRegistrations = None, requests = []\<rparr>"

definition form_data :: obj where
  "form_data = [''hackathon_title'' \<mapsto> JStr ''Quantum Weekend'', ''experience_level'' \<mapsto> JStr ''beginner'']"

definition accepted_response :: response where
  "accepted_response = \<lparr>resp_status = Some 200, resp_data = None\<rparr>"

definition accepts :: network where
  "accepts = (\<lambda>rq. Inr accepted_response)"

definition hack_draft :: hackathon where
  "hack_draft = \<lparr>title = Some ''Draft'', status = Some ''upcoming'', participants = None\<rparr>"

definition hack_small :: hackathon where
  "hack_small =
     \<lparr>title = Some ''Intro Night'', status = Some ''completed'',
      participants = Some [''u1'', ''u2'', ''u3'']\<rparr>"

definition hack_big :: hackathon where
  "hack_big =
     \<lparr>title = Some ''AI Sprint'', status = Some ''ongoing'',
      participants = Some (replicate 50 ''u'')\<rparr>"

definition hack_tie :: hackathon where
  "hack_tie =
     \<lparr>title = Some ''Data Jam'', status = Some ''upcoming'',
      participants = Some (replicate 50 ''v'')\<rparr>"

text \<open>
  The set-carrying scan that links the index test of the source to \<open>dedup_first\<close>:
  \<open>seen\<close> holds the keys met so far.
\<close>

fun keep_new :: "('a \<Rightarrow> 'k) \<Rightarrow> 'k set \<Rightarrow> 'a list \<Rightarrow> 'a list" where
  "keep_new key seen [] = []"
| "keep_new key seen (x # xs) =
     (if key x \<in> seen then keep_new key seen xs else x # keep_new key (insert (key x) seen) xs)"

section \<open>Reconciliation: the index test keeps first occurrences\<close>

lemma findIndex_from_hit:
  "\<exists>y\<in>set pre. p y \<Longrightarrow> findIndex_from k p (pre @ ys) < int (k + length pre)"
proof (induction pre arbitrary: k)
  case Nil
  then show ?case by simp
next
  case (Cons a pre)
  show ?case
  proof (cases "p a")
    case True
    then show ?thesis by simp
  next
    case False
    with Cons.prems have "\<exists>y\<in>set pre. p y" by simp
    from Cons.IH [OF this, of "Suc k"] False show ?thesis by simp
  qed
qed

lemma findIndex_from_miss:
  "\<forall>y\<in>set pre. \<not> p y \<Longrightarrow> findIndex_from k p (pre @ ys) = findIndex_from (k + length pre) p ys"
  by (induction pre arbitrary: k) simp_all

lemma first_occurrence_test:
  "(int (length pre) = findIndex (\<lambda>r. key r = key x) (pre @ x # xs)) \<longleftrightarrow> key x \<notin> key ` set pre"
proof (cases "\<exists>y\<in>set pre. key y = key x")
  case True
  then obtain y where "y \<in> set pre" "key y = key x" by blast
  then have "key x \<in> key ` set pre" by (metis imageI)
  with findIndex_from_hit [OF True, of 0 "x # xs"] show ?thesis
    by (simp add: findIndex_def)
next
  case False
  then have "\<forall>y\<in>set pre. \<not> key y = key x" by blast
  from findIndex_from_miss [OF this, of 0 "x # xs"] False show ?thesis
    by (auto simp: findIndex_def)
qed

lemma array_filter_from_keep_new:
  "array_filter_from (length pre)
     (\<lambda>reg index self. int index = findIndex (\<lambda>r. key r = key reg) self) (pre @ xs) xs
   = keep_new key (key ` set pre) xs"
proof (induction xs arbitrary: pre)
  case Nil
  show ?case by simp
next
  case (Cons x xs)
  have step: "array_filter_from (Suc (length pre))
     (\<lambda>reg index self. int index = findIndex (\<lambda>r. key r = key reg) self) (pre @ x # xs) xs
   = keep_new key (key ` set (pre @ [x])) xs"
    using Cons.IH [of "pre @ [x]"] by simp
  show ?case
    by (simp add: first_occurrence_test step insert_absorb del: of_nat_Suc)
qed

lemma keep_new_dedup_first:
  "keep_new key seen xs = dedup_first key (filter (\<lambda>y. key y \<notin> seen) xs)"
proof (induction xs arbitrary: seen)
  case Nil
  show ?case by simp
next
  case (Cons x xs)
  have "filter (\<lambda>y. key y \<noteq> key x) (filter (\<lambda>y. key y \<notin> seen) xs)
        = filter (\<lambda>y. key y \<notin> insert (key x) seen) xs"
    by (induction xs) auto
  with Cons.IH show ?case by simp
qed

lemma uniqueRegistrations_dedup_first:
  "uniqueRegistrations rs = dedup_first hackathon_id rs"
  using array_filter_from_keep_new [of "[]" hackathon_id rs]
  by (simp add: uniqueRegistrations_def array_filter_def keep_new_dedup_first)

lemma set_dedup_first_subset: "set (dedup_first key xs) \<subseteq> set xs"
  by (induction key xs rule: dedup_first.induct) auto

lemma distinct_dedup_first: "distinct (map key (dedup_first key xs))"
proof (induction key xs rule: dedup_first.induct)
  case (1 key)
  show ?case by simp
next
  case (2 key x xs)
  have "key x \<notin> key ` set (dedup_first key (filter (\<lambda>y. key y \<noteq> key x) xs))"
    using set_dedup_first_subset [of key "filter (\<lambda>y. key y \<noteq> key x) xs"] by auto
  with 2 show ?case by simp
qed

lemma find_dedup_first:
  "find (\<lambda>y. key y = k) (dedup_first key xs) = find (\<lambda>y. key y = k) xs"
proof (induction key xs rule: dedup_first.induct)
  case (1 key)
  show ?case by simp
next
  case (2 key x xs)
  have "key x \<noteq> k \<Longrightarrow> find (\<lambda>y. key y = k) (filter (\<lambda>y. key y \<noteq> key x) xs) = find (\<lambda>y. key y = k) xs"
    by (induction xs) auto
  with 2 show ?case by simp
qed

lemma keys_dedup_first: "key ` set (dedup_first key xs) = key ` set xs"
proof (induction key xs rule: dedup_first.induct)
  case (1 key)
  show ?case by simp
next
  case (2 key x xs)
  have "key ` set (filter (\<lambda>y. key y \<noteq> key x) xs) = key ` set xs - {key x}"
    by auto
  with 2 show ?case by auto
qed

lemma dedup_first_distinct_id:
  "distinct (map key xs) \<Longrightarrow> dedup_first key xs = xs"
proof (induction xs)
  case Nil
  show ?case by simp
next
  case (Cons x xs)
  from Cons.prems have "key x \<notin> key ` set xs" by simp
  then have "\<forall>y\<in>set xs. key y \<noteq> key x" by (metis imageI)
  then have "filter (\<lambda>y. key y \<noteq> key x) xs = xs" by (simp add: filter_id_conv)
  with Cons show ?case by simp
qed

lemma dedup_first_fixed_iff:
  "(dedup_first key xs = xs) = distinct (map key xs)"
proof
  assume eq: "dedup_first key xs = xs"
  have "distinct (map key (dedup_first key xs))" by (rule distinct_dedup_first)
  then show "distinct (map key xs)" unfolding eq .
next
  assume "distinct (map key xs)"
  then show "dedup_first key xs = xs" by (rule dedup_first_distinct_id)
qed

lemma hackathon_id_examples:
  "hackathon_id reg_server_h1 = Some (JStr ''h1'')"
  "hackathon_id reg_server_h2 = Some (JStr ''h2'')"
  "hackathon_id reg_cached_h1 = Some (JStr ''h1'')"
  "hackathon_id reg_cached_h3 = Some (JStr ''h3'')"
  by (simp_all add: hackathon_id_def reg_server_h1_def reg_server_h2_def reg_cached_h1_def
      reg_cached_h3_def)

lemma getUserRegistrations_success:
  "net registrations_request = Inr r \<Longrightarrow>
   getUserRegistrations net w =
     (Inr (registrations_reply (uniqueRegistrations (backendRegistrations r @ localRegistrations w))),
      w\<lparr>requests := requests w @ [registrations_request]\<rparr>)"
  by (simp add: getUserRegistrations_def api_call_def localRegistrations_def)

lemma getUserRegistrations_failure:
  "net registrations_request = Inl e \<Longrightarrow>
   getUserRegistrations net w =
     (Inr (registrations_reply (localRegistrations w)),
      w\<lparr>requests := requests w @ [registrations_request]\<rparr>)"
  by (simp add: getUserRegistrations_def api_call_def localRegistrations_def)

lemma find_append:
  "find p (xs @ ys) = (case find p xs of Some x \<Rightarrow> Some x | None \<Rightarrow> find p ys)"
  by (induction xs) simp_all

lemma example_backend: "backendRegistrations (ok_response rs) = rs"
  by (simp add: backendRegistrations_def ok_response_def)

lemma example_cache: "localRegistrations (cache_of rs) = rs"
  by (simp add: localRegistrations_def cache_of_def)

section \<open>Claims about getUserRegistrations\<close>

text \<open>
  C2. When the remote call succeeds with a non-empty list, every hackathon identifier of
  the remote list is the identifier of some entry of the reconciled output.
\<close>

theorem getUserRegistrations_keeps_remote_ids:
  assumes "net registrations_request = Inr r"
    and "backendRegistrations r \<noteq> []"
  shows "\<exists>out. fst (getUserRegistrations net w) = Inr (registrations_reply out)
           \<and> hackathon_id ` set (backendRegistrations r) \<subseteq> hackathon_id ` set out"
proof -
  let ?out = "uniqueRegistrations (backendRegistrations r @ localRegistrations w)"
  have "hackathon_id ` set ?out =
        hackathon_id ` set (backendRegistrations r) \<union> hackathon_id ` set (localRegistrations w)"
    by (simp add: uniqueRegistrations_dedup_first keys_dedup_first image_Un)
  then have "hackathon_id ` set (backendRegistrations r) \<subseteq> hackathon_id ` set ?out"
    by blast
  moreover have "fst (getUserRegistrations net w) = Inr (registrations_reply ?out)"
    using assms(1) by (simp add: getUserRegistrations_success)
  ultimately show ?thesis by blast
qed

theorem getUserRegistrations_keeps_remote_ids_witness:
  "server_lists [reg_server_h1, reg_server_h2] registrations_request =
     Inr (ok_response [reg_server_h1, reg_server_h2])
   \<and> backendRegistrations (ok_response [reg_server_h1, reg_server_h2]) \<noteq> []
   \<and> (\<exists>out. fst (getUserRegistrations (server_lists [reg_server_h1, reg_server_h2])
                  (cache_of [reg_cached_h1, reg_cached_h3])) = Inr (registrations_reply out)
          \<and> {Some (JStr ''h1''), Some (JStr ''h2'')} \<subseteq> hackathon_id ` set out)"
  using getUserRegistrations_keeps_remote_ids
    [of "server_lists [reg_server_h1, reg_server_h2]" "ok_response [reg_server_h1, reg_server_h2]"
        "cache_of [reg_cached_h1, reg_cached_h3]"]
  by (simp add: server_lists_def example_backend hackathon_id_examples)

text \<open>
  C3. When the remote call fails, \<open>getUserRegistrations\<close> returns a reply (not an error)
  whose list is exactly the cached list, and the cache is left as it was.
\<close>

theorem getUserRegistrations_falls_back_to_cache:
  assumes "net registrations_request = Inl e"
  shows "fst (getUserRegistrations net w) = Inr (registrations_reply (localRegistrations w))
       \<and> myRegistrations (snd (getUserRegistrations net w)) = myRegistrations w"
  using assms by (simp add: getUserRegistrations_failure)

theorem getUserRegistrations_falls_back_to_cache_witness:
  "server_down registrations_request = Inl network_error
   \<and> fst (getUserRegistrations server_down (cache_of [reg_cached_h1, reg_cached_h3])) =
       Inr (registrations_reply [reg_cached_h1, reg_cached_h3])"
  using getUserRegistrations_falls_back_to_cache
    [of server_down network_error "cache_of [reg_cached_h1, reg_cached_h3]"]
  by (simp add: server_down_def example_cache)

section \<open>Claims about registerForHackathon and unregisterFromHackathon\<close>

lemma register_catch_Error:
  "register_catch (Error msg) = Error msg"
  by (simp add: register_catch_def Error_def)

lemma registerForHackathon_signed_out:
  "currentUser w = None \<Longrightarrow>
   registerForHackathon net now hid payload w =
     (Inl (Error ''Please login to register for hackathons''), w)"
  by (simp add: registerForHackathon_def register_catch_Error)

lemma registerForHackathon_rejected:
  "currentUser w = Some u \<Longrightarrow> net (register_request hid payload) = Inl e \<Longrightarrow>
   registerForHackathon net now hid payload w =
     (Inl (register_catch e), w\<lparr>requests := requests w @ [register_request hid payload]\<rparr>)"
  by (simp add: registerForHackathon_def api_call_def)

lemma registerForHackathon_accepted:
  "currentUser w = Some u \<Longrightarrow> net (register_request hid payload) = Inr r \<Longrightarrow>
   registerForHackathon net now hid payload w =
     (Inr r, w\<lparr>requests := requests w @ [register_request hid payload],
               myRegistrations := Some (localRegistrations w @ [mockRegistration hid u now payload])\<rparr>)"
  by (simp add: registerForHackathon_def api_call_def localRegistrations_def)

lemma cache_of_user: "currentUser (cache_of rs) = Some \<lparr>uid = ''u1''\<rparr>"
  by (simp add: cache_of_def)

lemma example_errors:
  "code timeout_error = Some ''ECONNABORTED''"
  "code (http_error st d) = Some ''ERR_BAD_REQUEST''"
  "code network_error = Some ''ERR_NETWORK''"
  "err_response (http_error st d) = Some (error_response st d)"
  "err_response network_error = None"
  "err_request network_error"
  "resp_status (error_response st d) = Some st"
  "resp_data (error_response st d) = Some (error_body d)"
  "detail (error_body d) = d"
  "rejects_with e rq = Inl e"
  by (simp_all add: timeout_error_def http_error_def network_error_def error_response_def
      error_body_def rejects_with_def)

lemma unregister_world:
  "snd (unregisterFromHackathon net hid w) =
     remove_local hid (w\<lparr>requests := requests w @ [unregister_request hid]\<rparr>)"
  by (cases "net (unregister_request hid)") (simp_all add: unregisterFromHackathon_def api_call_def)

lemma localRegistrations_remove_local:
  "localRegistrations (remove_local hid w) =
     filter (\<lambda>reg. hackathon_id reg \<noteq> Some (JStr hid)) (localRegistrations w)"
  by (simp add: remove_local_def localRegistrations_def)

lemma localRegistrations_requests_update:
  "localRegistrations (w\<lparr>requests := rs\<rparr>) = localRegistrations w"
  by (simp add: localRegistrations_def)

lemma hackathon_id_mockRegistration:
  "payload ''hackathon_id'' = None \<Longrightarrow>
   hackathon_id (mockRegistration hid u now payload) = Some (JStr hid)"
  by (simp add: hackathon_id_def mockRegistration_def map_add_def)

lemma localRegistrations_accepted:
  "localRegistrations (w\<lparr>requests := rq, myRegistrations := Some rs\<rparr>) = rs"
  by (simp add: localRegistrations_def)

lemma form_data_no_id: "form_data ''hackathon_id'' = None"
  by (simp add: form_data_def)

lemma currentUser_registerForHackathon:
  "currentUser (snd (registerForHackathon net now hid payload w)) = currentUser w"
proof (cases "currentUser w")
  case None
  then show ?thesis by (simp add: registerForHackathon_signed_out)
next
  case (Some u)
  then show ?thesis
    by (cases "net (register_request hid payload)")
       (simp_all add: registerForHackathon_rejected registerForHackathon_accepted)
qed

lemma localRegistrations_registerForHackathon:
  "currentUser w = Some u \<Longrightarrow> net (register_request hid payload) = Inr r \<Longrightarrow>
   localRegistrations (snd (registerForHackathon net now hid payload w)) =
     localRegistrations w @ [mockRegistration hid u now payload]"
  by (simp add: registerForHackathon_accepted localRegistrations_accepted)

lemma distinct_key_once:
  "distinct (map key xs) \<Longrightarrow> k \<in> key ` set xs \<Longrightarrow>
   length (filter (\<lambda>x. key x = k) xs) = 1"
proof (induction xs)
  case Nil
  then show ?case by simp
next
  case (Cons x xs)
  show ?case
  proof (cases "key x = k")
    case True
    from Cons.prems(1) have "key x \<notin> key ` set xs" by simp
    with True have "\<forall>y\<in>set xs. key y \<noteq> k" by (metis imageI)
    then have "filter (\<lambda>x. key x = k) xs = []" by (simp add: filter_empty_conv)
    with True show ?thesis by simp
  next
    case False
    with Cons show ?thesis by auto
  qed
qed

text \<open>
  C8. Every failure of \<open>registerForHackathon\<close> is thrown with its own message. Without
  an authenticated user the login message is thrown and the world is unchanged, so no
  request is sent. With a user and a rejected request: a timeout (\<open>ECONNABORTED\<close>)
  gives the timeout message; otherwise a response with status 401, 403, 404 or 408 gives
  the fixed message of that status, status 400 gives the detail the server supplied (or
  \<open>Invalid request\<close> when it supplied none), any other status gives the server's
  detail or \<open>Registration failed\<close>; and an error with a request but no response gives
  the no-response message. The fixed messages are pairwise distinct.
\<close>

theorem registerForHackathon_error_messages:
  assumes "currentUser w = Some u"
    and "net (register_request hid payload) = Inl e"
  shows
    "(currentUser w0 = None \<longrightarrow>
        registerForHackathon net0 now hid payload w0 =
          (Inl (Error ''Please login to register for hackathons''), w0))
   \<and> (code e = Some ''ECONNABORTED'' \<longrightarrow>
        fst (registerForHackathon net now hid payload w) =
          Inl (Error ''Request timeout - please try again''))
   \<and> (code e \<noteq> Some ''ECONNABORTED'' \<and> err_response e = Some r \<longrightarrow>
        (resp_status r = Some 401 \<longrightarrow>
           fst (registerForHackathon net now hid payload w) =
             Inl (Error ''Authentication failed - please login again''))
      \<and> (resp_status r = Some 403 \<longrightarrow>
           fst (registerForHackathon net now hid payload w) =
             Inl (Error ''Access denied - please check your permissions''))
      \<and> (resp_status r = Some 400 \<and> resp_data r = Some b \<and> detail b = Some d \<and> d \<noteq> [] \<longrightarrow>
           fst (registerForHackathon net now hid payload w) = Inl (Error d))
      \<and> (resp_status r = Some 400 \<and> resp_data r = Some b \<and> detail b = None \<longrightarrow>
           fst (registerForHackathon net now hid payload w) = Inl (Error ''Invalid request''))
      \<and> (resp_status r = Some 404 \<longrightarrow>
           fst (registerForHackathon net now hid payload w) = Inl (Error ''Hackathon not found''))
      \<and> (resp_status r = Some 408 \<longrightarrow>
           fst (registerForHackathon net now hid payload w) =
             Inl (Error ''Authentication timeout - please try again''))
      \<and> (resp_status r \<notin> {Some 401, Some 403, Some 400, Some 404, Some 408} \<longrightarrow>
           (resp_data r = Some b \<and> detail b = Some d \<and> d \<noteq> [] \<longrightarrow>
              fst (registerForHackathon net now hid payload w) = Inl (Error d))
         \<and> (resp_data r = Some b \<and> detail b = None \<longrightarrow>
              fst (registerForHackathon net now hid payload w) =
                Inl (Error ''Registration failed''))))
   \<and> (code e \<noteq> Some ''ECONNABORTED'' \<and> err_response e = None \<and> err_request e \<longrightarrow>
        fst (registerForHackathon net now hid payload w) =
          Inl (Error ''No response from server - please check your connection''))
   \<and> distinct [''Please login to register for hackathons'',
        ''Request timeout - please try again'',
        ''Authentication failed - please login again'',
        ''Access denied - please check your permissions'',
        ''Hackathon not found'',
        ''Authentication timeout - please try again'',
        ''Registration failed'',
        ''Invalid request'',
        ''No response from server - please check your connection'']"
proof -
  have thrown: "fst (registerForHackathon net now hid payload w) = Inl (register_catch e)"
    using assms by (simp add: registerForHackathon_rejected)
  have c0: "currentUser w0 = None \<longrightarrow>
        registerForHackathon net0 now hid payload w0 =
          (Inl (Error ''Please login to register for hackathons''), w0)"
    by (simp add: registerForHackathon_signed_out)
  have c1: "code e = Some ''ECONNABORTED'' \<longrightarrow>
        register_catch e = Error ''Request timeout - please try again''"
    by (simp add: register_catch_def)
  have c2: "code e \<noteq> Some ''ECONNABORTED'' \<and> err_response e = Some r \<longrightarrow>
        (resp_status r = Some 401 \<longrightarrow>
           register_catch e = Error ''Authentication failed - please login again'')
      \<and> (resp_status r = Some 403 \<longrightarrow>
           register_catch e = Error ''Access denied - please check your permissions'')
      \<and> (resp_status r = Some 400 \<and> resp_data r = Some b \<and> detail b = Some d \<and> d \<noteq> [] \<longrightarrow>
           register_catch e = Error d)
      \<and> (resp_status r = Some 400 \<and> resp_data r = Some b \<and> detail b = None \<longrightarrow>
           register_catch e = Error ''Invalid request'')
      \<and> (resp_status r = Some 404 \<longrightarrow> register_catch e = Error ''Hackathon not found'')
      \<and> (resp_status r = Some 408 \<longrightarrow>
           register_catch e = Error ''Authentication timeout - please try again'')
      \<and> (resp_status r \<notin> {Some 401, Some 403, Some 400, Some 404, Some 408} \<longrightarrow>
           (resp_data r = Some b \<and> detail b = Some d \<and> d \<noteq> [] \<longrightarrow> register_catch e = Error d)
         \<and> (resp_data r = Some b \<and> detail b = None \<longrightarrow>
              register_catch e = Error ''Registration failed''))"
    by (simp add: register_catch_def detail_or_def)
  have c3: "code e \<noteq> Some ''ECONNABORTED'' \<and> err_response e = None \<and> err_request e \<longrightarrow>
        register_catch e = Error ''No response from server - please check your connection''"
    by (simp add: register_catch_def)
  have c4: "distinct [''Please login to register for hackathons'',
        ''Request timeout - please try again'',
        ''Authentication failed - please login again'',
        ''Access denied - please check your permissions'',
        ''Hackathon not found'',
        ''Authentication timeout - please try again'',
        ''Registration failed'',
        ''Invalid request'',
        ''No response from server - please check your connection'']"
    by simp
  show ?thesis
    unfolding thrown sum.inject by (intro conjI; (rule c0 | rule c1 | rule c2 | rule c3 | rule c4))
qed

theorem registerForHackathon_error_messages_witness:
  "registerForHackathon server_down ''t'' ''h1'' Map.empty signed_out =
     (Inl (Error ''Please login to register for hackathons''), signed_out) \<and>
   requests signed_out = [] \<and>
   fst (registerForHackathon (rejects_with timeout_error) ''t'' ''h1'' Map.empty (cache_of [])) =
       Inl (Error ''Request timeout - please try again'') \<and>
   fst (registerForHackathon (rejects_with (http_error 401 None)) ''t'' ''h1'' Map.empty (cache_of [])) =
       Inl (Error ''Authentication failed - please login again'') \<and>
   fst (registerForHackathon (rejects_with (http_error 403 None)) ''t'' ''h1'' Map.empty (cache_of [])) =
       Inl (Error ''Access denied - please check your permissions'') \<and>
   fst (registerForHackathon (rejects_with (http_error 400 (Some ''Already registered''))) ''t'' ''h1'' Map.empty (cache_of [])) =
       Inl (Error ''Already registered'') \<and>
   fst (registerForHackathon (rejects_with (http_error 400 None)) ''t'' ''h1'' Map.empty (cache_of [])) =
       Inl (Error ''Invalid request'') \<and>
   fst (registerForHackathon (rejects_with (http_error 404 None)) ''t'' ''h1'' Map.empty (cache_of [])) =
       Inl (Error ''Hackathon not found'') \<and>
   fst (registerForHackathon (rejects_with (http_error 408 None)) ''t'' ''h1'' Map.empty (cache_of [])) =
       Inl (Error ''Authentication timeout - please try again'') \<and>
   fst (registerForHackathon (rejects_with (http_error 500 (Some ''Database unavailable''))) ''t'' ''h1'' Map.empty (cache_of [])) =
       Inl (Error ''Database unavailable'') \<and>
   fst (registerForHackathon (rejects_with (http_error 500 None)) ''t'' ''h1'' Map.empty (cache_of [])) =
       Inl (Error ''Registration failed'') \<and>
   fst (registerForHackathon (rejects_with network_error) ''t'' ''h1'' Map.empty (cache_of [])) =
       Inl (Error ''No response from server - please check your connection'')"
proof -
  have a0: "registerForHackathon server_down ''t'' ''h1'' Map.empty signed_out =
     (Inl (Error ''Please login to register for hackathons''), signed_out)"
    using registerForHackathon_error_messages
      [where w = "cache_of []" and u = "\<lparr>uid = ''u1''\<rparr>" and hid = "''h1''"
          and payload = Map.empty and now = "''t''"
          and net = "rejects_with timeout_error" and e = timeout_error and ?w0.0 = signed_out
          and ?net0.0 = server_down,
        THEN conjunct1]
    by (simp add: cache_of_user example_errors signed_out_def)
  have a1: "fst (registerForHackathon (rejects_with timeout_error) ''t'' ''h1'' Map.empty (cache_of [])) =
       Inl (Error ''Request timeout - please try again'')"
    using registerForHackathon_error_messages
      [where w = "cache_of []" and u = "\<lparr>uid = ''u1''\<rparr>" and hid = "''h1''"
          and payload = Map.empty and now = "''t''"
          and net = "rejects_with timeout_error" and e = timeout_error,
        THEN conjunct2, THEN conjunct1]
    by (simp add: cache_of_user example_errors)
  have b0: "fst (registerForHackathon (rejects_with (http_error 401 None)) ''t'' ''h1'' Map.empty (cache_of [])) =
       Inl (Error ''Authentication failed - please login again'')"
    using registerForHackathon_error_messages
      [where w = "cache_of []" and u = "\<lparr>uid = ''u1''\<rparr>" and hid = "''h1''"
          and payload = Map.empty and now = "''t''"
          and net = "rejects_with (http_error 401 None)" and e = "http_error 401 None" and r = "error_response 401 None" and b = "error_body None",
        THEN conjunct2, THEN conjunct2, THEN conjunct1]
    by (simp add: cache_of_user example_errors)
  have b1: "fst (registerForHackathon (rejects_with (http_error 403 None)) ''t'' ''h1'' Map.empty (cache_of [])) =
       Inl (Error ''Access denied - please check your permissions'')"
    using registerForHackathon_error_messages
      [where w = "cache_of []" and u = "\<lparr>uid = ''u1''\<rparr>" and hid = "''h1''"
          and payload = Map.empty and now = "''t''"
          and net = "rejects_with (http_error 403 None)" and e = "http_error 403 None" and r = "error_response 403 None" and b = "error_body None",
        THEN conjunct2, THEN conjunct2, THEN conjunct1]
    by (simp add: cache_of_user example_errors)
  have b2: "fst (registerForHackathon (rejects_with (http_error 400 (Some ''Already registered''))) ''t'' ''h1'' Map.empty (cache_of [])) =
       Inl (Error ''Already registered'')"
    using registerForHackathon_error_messages
      [where w = "cache_of []" and u = "\<lparr>uid = ''u1''\<rparr>" and hid = "''h1''"
          and payload = Map.empty and now = "''t''"
          and net = "rejects_with (http_error 400 (Some ''Already registered''))" and e = "http_error 400 (Some ''Already registered'')" and r = "error_response 400 (Some ''Already registered'')" and b = "error_body (Some ''Already registered'')" and d = "''Already registered''",
        THEN conjunct2, THEN conjunct2, THEN conjunct1]
    by (simp add: cache_of_user example_errors)
  have b3: "fst (registerForHackathon (rejects_with (http_error 400 None)) ''t'' ''h1'' Map.empty (cache_of [])) =
       Inl (Error ''Invalid request'')"
    using registerForHackathon_error_messages
      [where w = "cache_of []" and u = "\<lparr>uid = ''u1''\<rparr>" and hid = "''h1''"
          and payload = Map.empty and now = "''t''"
          and net = "rejects_with (http_error 400 None)" and e = "http_error 400 None" and r = "error_response 400 None" and b = "error_body None",
        THEN conjunct2, THEN conjunct2, THEN conjunct1]
    by (simp add: cache_of_user example_errors)
  have b4: "fst (registerForHackathon (rejects_with (http_error 404 None)) ''t'' ''h1'' Map.empty (cache_of [])) =
       Inl (Error ''Hackathon not found'')"
    using registerForHackathon_error_messages
      [where w = "cache_of []" and u = "\<lparr>uid = ''u1''\<rparr>" and hid = "''h1''"
          and payload = Map.empty and now = "''t''"
          and net = "rejects_with (http_error 404 None)" and e = "http_error 404 None" and r = "error_response 404 None" and b = "error_body None",
        THEN conjunct2, THEN conjunct2, THEN conjunct1]
    by (simp add: cache_of_user example_errors)
  have b5: "fst (registerForHackathon (rejects_with (http_error 408 None)) ''t'' ''h1'' Map.empty (cache_of [])) =
       Inl (Error ''Authentication timeout - please try again'')"
    using registerForHackathon_error_messages
      [where w = "cache_of []" and u = "\<lparr>uid = ''u1''\<rparr>" and hid = "''h1''"
          and payload = Map.empty and now = "''t''"
          and net = "rejects_with (http_error 408 None)" and e = "http_error 408 None" and r = "error_response 408 None" and b = "error_body None",
        THEN conjunct2, THEN conjunct2, THEN conjunct1]
    by (simp add: cache_of_user example_errors)
  have b6: "fst (registerForHackathon (rejects_with (http_error 500 (Some ''Database unavailable''))) ''t'' ''h1'' Map.empty (cache_of [])) =
       Inl (Error ''Database unavailable'')"
    using registerForHackathon_error_messages
      [where w = "cache_of []" and u = "\<lparr>uid = ''u1''\<rparr>" and hid = "''h1''"
          and payload = Map.empty and now = "''t''"
          and net = "rejects_with (http_error 500 (Some ''Database unavailable''))" and e = "http_error 500 (Some ''Database unavailable'')" and r = "error_response 500 (Some ''Database unavailable'')" and b = "error_body (Some ''Database unavailable'')" and d = "''Database unavailable''",
        THEN conjunct2, THEN conjunct2, THEN conjunct1]
    by (simp add: cache_of_user example_errors)
  have b7: "fst (registerForHackathon (rejects_with (http_error 500 None)) ''t'' ''h1'' Map.empty (cache_of [])) =
       Inl (Error ''Registration failed'')"
    using registerForHackathon_error_messages
      [where w = "cache_of []" and u = "\<lparr>uid = ''u1''\<rparr>" and hid = "''h1''"
          and payload = Map.empty and now = "''t''"
          and net = "rejects_with (http_error 500 None)" and e = "http_error 500 None" and r = "error_response 500 None" and b = "error_body None",
        THEN conjunct2, THEN conjunct2, THEN conjunct1]
    by (simp add: cache_of_user example_errors)
  have a9: "fst (registerForHackathon (rejects_with network_error) ''t'' ''h1'' Map.empty (cache_of [])) =
       Inl (Error ''No response from server - please check your connection'')"
    using registerForHackathon_error_messages
      [where w = "cache_of []" and u = "\<lparr>uid = ''u1''\<rparr>" and hid = "''h1''"
          and payload = Map.empty and now = "''t''"
          and net = "rejects_with network_error" and e = network_error,
        THEN conjunct2, THEN conjunct2, THEN conjunct2, THEN conjunct1]
    by (simp add: cache_of_user example_errors)
  have no_call: "requests signed_out = []"
    by (simp add: signed_out_def)
  show ?thesis
    by (intro conjI; (rule a0 | rule no_call | rule a1 | rule b0 | rule b1 | rule b2 | rule b3
        | rule b4 | rule b5 | rule b6 | rule b7 | rule a9))
qed

text \<open>
  C9. \<open>unregisterFromHackathon\<close> never throws. Whatever the remote call does, the
  result is a response: the server's own when the call succeeded, the locally made
  success object when it failed. In both cases the cache afterwards is the old cache
  without the records whose hackathon identifier is the given one, so none is left.
\<close>

theorem unregisterFromHackathon_never_throws:
  "fst (unregisterFromHackathon net hid w) =
     (case net (unregister_request hid) of
        Inr r \<Rightarrow> Inr r
      | Inl e \<Rightarrow> Inr local_unregistered)
   \<and> (\<exists>r. fst (unregisterFromHackathon net hid w) = Inr r)
   \<and> map_option success (resp_data local_unregistered) = Some (Some True)
   \<and> localRegistrations (snd (unregisterFromHackathon net hid w)) =
       filter (\<lambda>reg. hackathon_id reg \<noteq> Some (JStr hid)) (localRegistrations w)
   \<and> Some (JStr hid) \<notin> hackathon_id ` set (localRegistrations (snd (unregisterFromHackathon net hid w)))"
proof -
  have res: "fst (unregisterFromHackathon net hid w) =
     (case net (unregister_request hid) of Inr r \<Rightarrow> Inr r | Inl e \<Rightarrow> Inr local_unregistered)"
    by (cases "net (unregister_request hid)")
       (simp_all add: unregisterFromHackathon_def api_call_def)
  have ex: "\<exists>r. fst (unregisterFromHackathon net hid w) = Inr r"
    unfolding res by (cases "net (unregister_request hid)") simp_all
  have cache: "localRegistrations (snd (unregisterFromHackathon net hid w)) =
       filter (\<lambda>reg. hackathon_id reg \<noteq> Some (JStr hid)) (localRegistrations w)"
    by (simp add: unregister_world localRegistrations_remove_local localRegistrations_requests_update)
  have gone: "Some (JStr hid) \<notin> hackathon_id ` set (localRegistrations (snd (unregisterFromHackathon net hid w)))"
    unfolding cache by auto
  have shape: "map_option success (resp_data local_unregistered) = Some (Some True)"
    by (simp add: local_unregistered_def)
  from res ex cache gone shape show ?thesis by blast
qed

text \<open>
  C4, as the specification states it, fails: registering while the remote call throws
  leaves the cache empty, and a later successful listing that omits the hackathon does not
  contain it.
\<close>

theorem registerForHackathon_offline_counterexample:
  "fst (registerForHackathon server_down ''2025-03-01T10:00:00.000Z'' ''hX'' form_data (cache_of [])) =
     Inl (Error ''No response from server - please check your connection'')
   \<and> localRegistrations
        (snd (registerForHackathon server_down ''2025-03-01T10:00:00.000Z'' ''hX'' form_data
               (cache_of []))) = []
   \<and> fst (getUserRegistrations (server_lists [reg_server_h1])
        (snd (registerForHackathon server_down ''2025-03-01T10:00:00.000Z'' ''hX'' form_data
               (cache_of [])))) = Inr (registrations_reply [reg_server_h1])
   \<and> Some (JStr ''hX'') \<notin> hackathon_id ` set [reg_server_h1]"
proof -
  have reg: "registerForHackathon server_down ''2025-03-01T10:00:00.000Z'' ''hX'' form_data (cache_of []) =
      (Inl (register_catch network_error),
       (cache_of [])\<lparr>requests := requests (cache_of []) @ [register_request ''hX'' form_data]\<rparr>)"
    by (rule registerForHackathon_rejected [where u = "\<lparr>uid = ''u1''\<rparr>"])
       (simp_all add: cache_of_user server_down_def)
  have msg: "register_catch network_error =
      Error ''No response from server - please check your connection''"
    by (simp add: register_catch_def example_errors)
  have merged: "fst (getUserRegistrations (server_lists [reg_server_h1]) w) =
      Inr (registrations_reply (dedup_first hackathon_id ([reg_server_h1] @ localRegistrations w)))" for w
    by (simp add: getUserRegistrations_success [where r = "ok_response [reg_server_h1]"]
        server_lists_def example_backend uniqueRegistrations_dedup_first)
  show ?thesis
    by (simp add: reg msg merged localRegistrations_requests_update example_cache
        hackathon_id_examples)
qed

text \<open>
  C4, amended. For an authenticated user the cache is written only when the remote call
  succeeded. When the call throws, the mapped error is thrown and the cache is unchanged.
  When it succeeds, the cache gains one record at its end; for a payload that carries no
  \<open>hackathon_id\<close> field of its own the record's hackathon identifier is the given one,
  and every later successful \<open>getUserRegistrations\<close> has an entry with that identifier,
  whether or not the remote list has one.
\<close>

theorem registerForHackathon_cache_written_on_success:
  assumes "currentUser w = Some u"
  shows
    "(net (register_request hid payload) = Inl e \<longrightarrow>
        fst (registerForHackathon net now hid payload w) = Inl (register_catch e)
      \<and> myRegistrations (snd (registerForHackathon net now hid payload w)) = myRegistrations w)
   \<and> (net (register_request hid payload) = Inr r \<and> payload ''hackathon_id'' = None
        \<and> net' registrations_request = Inr r' \<longrightarrow>
        fst (registerForHackathon net now hid payload w) = Inr r
      \<and> localRegistrations (snd (registerForHackathon net now hid payload w)) =
          localRegistrations w @ [mockRegistration hid u now payload]
      \<and> hackathon_id (mockRegistration hid u now payload) = Some (JStr hid)
      \<and> (\<exists>out. fst (getUserRegistrations net' (snd (registerForHackathon net now hid payload w))) =
                  Inr (registrations_reply out)
              \<and> Some (JStr hid) \<in> hackathon_id ` set out))"
proof (intro conjI impI)
  assume rej: "net (register_request hid payload) = Inl e"
  show "fst (registerForHackathon net now hid payload w) = Inl (register_catch e)"
    using assms rej by (simp add: registerForHackathon_rejected)
  show "myRegistrations (snd (registerForHackathon net now hid payload w)) = myRegistrations w"
    using assms rej by (simp add: registerForHackathon_rejected)
next
  assume acc: "net (register_request hid payload) = Inr r \<and> payload ''hackathon_id'' = None
        \<and> net' registrations_request = Inr r'"
  let ?w1 = "snd (registerForHackathon net now hid payload w)"
  let ?new = "mockRegistration hid u now payload"
  show res: "fst (registerForHackathon net now hid payload w) = Inr r"
    using assms acc by (simp add: registerForHackathon_accepted)
  show cache: "localRegistrations ?w1 = localRegistrations w @ [?new]"
    using assms acc by (simp add: registerForHackathon_accepted localRegistrations_accepted)
  show key: "hackathon_id ?new = Some (JStr hid)"
    using acc by (simp add: hackathon_id_mockRegistration)
  let ?out = "uniqueRegistrations (backendRegistrations r' @ localRegistrations ?w1)"
  have "fst (getUserRegistrations net' ?w1) = Inr (registrations_reply ?out)"
    using acc by (simp add: getUserRegistrations_success)
  moreover have "hackathon_id ?new \<in> hackathon_id ` set ?out"
    unfolding uniqueRegistrations_dedup_first keys_dedup_first cache by simp
  ultimately show "\<exists>out. fst (getUserRegistrations net' ?w1) = Inr (registrations_reply out)
              \<and> Some (JStr hid) \<in> hackathon_id ` set out"
    unfolding key by blast
qed

theorem registerForHackathon_cache_written_on_success_witness:
  "currentUser (cache_of []) = Some \<lparr>uid = ''u1''\<rparr>
   \<and> fst (registerForHackathon accepts ''t'' ''hX'' form_data (cache_of [])) = Inr accepted_response
   \<and> (\<exists>out. fst (getUserRegistrations (server_lists [reg_server_h1])
                  (snd (registerForHackathon accepts ''t'' ''hX'' form_data (cache_of [])))) =
                Inr (registrations_reply out)
          \<and> Some (JStr ''hX'') \<in> hackathon_id ` set out)
   \<and> fst (registerForHackathon server_down ''t'' ''hX'' form_data (cache_of [])) =
       Inl (register_catch network_error)
   \<and> myRegistrations (snd (registerForHackathon server_down ''t'' ''hX'' form_data (cache_of []))) =
       myRegistrations (cache_of [])"
proof -
  have ok: "fst (registerForHackathon accepts ''t'' ''hX'' form_data (cache_of [])) = Inr accepted_response
     \<and> (\<exists>out. fst (getUserRegistrations (server_lists [reg_server_h1])
                  (snd (registerForHackathon accepts ''t'' ''hX'' form_data (cache_of [])))) =
                Inr (registrations_reply out)
          \<and> Some (JStr ''hX'') \<in> hackathon_id ` set out)"
    using registerForHackathon_cache_written_on_success
      [where w = "cache_of []" and u = "\<lparr>uid = ''u1''\<rparr>" and net = accepts and hid = "''hX''"
         and payload = form_data and r = accepted_response and net' = "server_lists [reg_server_h1]"
         and r' = "ok_response [reg_server_h1]" and now = "''t''", THEN conjunct2]
    by (simp add: cache_of_user accepts_def server_lists_def form_data_no_id)
  have off: "fst (registerForHackathon server_down ''t'' ''hX'' form_data (cache_of [])) =
       Inl (register_catch network_error)
   \<and> myRegistrations (snd (registerForHackathon server_down ''t'' ''hX'' form_data (cache_of []))) =
       myRegistrations (cache_of [])"
    using registerForHackathon_cache_written_on_success
      [where w = "cache_of []" and u = "\<lparr>uid = ''u1''\<rparr>" and net = server_down and hid = "''hX''"
         and payload = form_data and e = network_error and now = "''t''", THEN conjunct1]
    by (simp add: cache_of_user server_down_def)
  from ok off show ?thesis
    by (simp add: cache_of_user)
qed

text \<open>
  C10. The cache write does not check for an existing record. Two successful
  registrations for the same hackathon, by the same user, append two records to the
  cache, both with that hackathon identifier, so the cache is not duplicate-free; the
  list that a successful \<open>getUserRegistrations\<close> returns afterwards has exactly one entry
  with that identifier and no repeated identifier.
\<close>

theorem registerForHackathon_appends_duplicates:
  assumes "currentUser w = Some u"
    and "net1 (register_request hid p1) = Inr r1"
    and "net2 (register_request hid p2) = Inr r2"
    and "p1 ''hackathon_id'' = None"
    and "p2 ''hackathon_id'' = None"
    and "net3 registrations_request = Inr r3"
  shows
    "localRegistrations
        (snd (registerForHackathon net2 t2 hid p2 (snd (registerForHackathon net1 t1 hid p1 w)))) =
       localRegistrations w @ [mockRegistration hid u t1 p1, mockRegistration hid u t2 p2]
   \<and> map hackathon_id [mockRegistration hid u t1 p1, mockRegistration hid u t2 p2] =
       [Some (JStr hid), Some (JStr hid)]
   \<and> 2 \<le> length (filter (\<lambda>reg. hackathon_id reg = Some (JStr hid))
        (localRegistrations
          (snd (registerForHackathon net2 t2 hid p2 (snd (registerForHackathon net1 t1 hid p1 w))))))
   \<and> \<not> distinct (map hackathon_id
        (localRegistrations
          (snd (registerForHackathon net2 t2 hid p2 (snd (registerForHackathon net1 t1 hid p1 w))))))
   \<and> (\<exists>out. fst (getUserRegistrations net3
          (snd (registerForHackathon net2 t2 hid p2 (snd (registerForHackathon net1 t1 hid p1 w))))) =
            Inr (registrations_reply out)
        \<and> distinct (map hackathon_id out)
        \<and> length (filter (\<lambda>reg. hackathon_id reg = Some (JStr hid)) out) = 1)"
proof -
  let ?w1 = "snd (registerForHackathon net1 t1 hid p1 w)"
  let ?w2 = "snd (registerForHackathon net2 t2 hid p2 ?w1)"
  let ?a = "mockRegistration hid u t1 p1"
  let ?b = "mockRegistration hid u t2 p2"
  have u1: "currentUser ?w1 = Some u"
    using assms(1) by (simp add: currentUser_registerForHackathon)
  have c1: "localRegistrations ?w1 = localRegistrations w @ [?a]"
    using assms(1,2) by (simp add: localRegistrations_registerForHackathon)
  have c2: "localRegistrations ?w2 = localRegistrations w @ [?a, ?b]"
    using localRegistrations_registerForHackathon
      [where w = "?w1" and u = u and net = net2 and hid = hid and payload = p2 and r = r2
         and now = t2] u1 assms(3) c1
    by simp
  have ka: "hackathon_id ?a = Some (JStr hid)" and kb: "hackathon_id ?b = Some (JStr hid)"
    using assms(4,5) by (simp_all add: hackathon_id_mockRegistration)
  have two: "2 \<le> length (filter (\<lambda>reg. hackathon_id reg = Some (JStr hid)) (localRegistrations ?w2))"
    unfolding c2 by (simp add: ka kb)
  have dup: "\<not> distinct (map hackathon_id (localRegistrations ?w2))"
    unfolding c2 by (simp add: ka kb)
  let ?out = "dedup_first hackathon_id (backendRegistrations r3 @ localRegistrations ?w2)"
  have reply: "fst (getUserRegistrations net3 ?w2) = Inr (registrations_reply ?out)"
    using assms(6) by (simp add: getUserRegistrations_success uniqueRegistrations_dedup_first)
  have d: "distinct (map hackathon_id ?out)"
    by (rule distinct_dedup_first)
  have "Some (JStr hid) \<in> hackathon_id ` set ?out"
    unfolding keys_dedup_first c2 using ka by force
  with d have one: "length (filter (\<lambda>reg. hackathon_id reg = Some (JStr hid)) ?out) = 1"
    by (rule distinct_key_once)
  from c2 ka kb two dup reply d one show ?thesis by auto
qed

theorem registerForHackathon_appends_duplicates_witness:
  "currentUser (cache_of []) = Some \<lparr>uid = ''u1''\<rparr>
   \<and> accepts (register_request ''hX'' form_data) = Inr accepted_response
   \<and> form_data ''hackathon_id'' = None
   \<and> localRegistrations
        (snd (registerForHackathon accepts ''t2'' ''hX'' form_data
               (snd (registerForHackathon accepts ''t1'' ''hX'' form_data (cache_of []))))) =
       [mockRegistration ''hX'' \<lparr>uid = ''u1''\<rparr> ''t1'' form_data,
        mockRegistration ''hX'' \<lparr>uid = ''u1''\<rparr> ''t2'' form_data]
   \<and> \<not> distinct (map hackathon_id
        (localRegistrations
          (snd (registerForHackathon accepts ''t2'' ''hX'' form_data
                 (snd (registerForHackathon accepts ''t1'' ''hX'' form_data (cache_of [])))))))"
  using registerForHackathon_appends_duplicates
    [where w = "cache_of []" and u = "\<lparr>uid = ''u1''\<rparr>" and ?net1.0 = accepts
       and ?net2.0 = accepts and hid = "''hX''" and ?p1.0 = form_data and ?p2.0 = form_data
       and ?r1.0 = accepted_response and ?r2.0 = accepted_response
       and ?net3.0 = "server_lists []" and ?r3.0 = "ok_response []"
       and ?t1.0 = "''t1''" and ?t2.0 = "''t2''"]
  by (simp add: cache_of_user accepts_def server_lists_def form_data_no_id example_cache)

section \<open>Claims about status derivation\<close>

text \<open>
  C5. \<open>getHackathonStatus\<close> returns one of the four status strings, whatever the dates.
  For valid dates the result is \<open>completed\<close> when now is after the end; otherwise
  \<open>ongoing\<close> when now lies between start and end; otherwise \<open>registration_closed\<close>
  when now is after the deadline; otherwise \<open>upcoming\<close>. Each of the four results
  therefore has exactly one condition under which it is returned. With start one day,
  end three days and deadline twelve hours after \<open>T\<close>, the status two days after \<open>T\<close>
  is \<open>ongoing\<close>, although the deadline has passed.
\<close>

theorem getHackathonStatus_priority:
  "getHackathonStatus now start end' regDeadline \<in>
     {''completed'', ''ongoing'', ''registration_closed'', ''upcoming''}
   \<and> getHackathonStatus now (Some s) (Some e) (Some d) =
       (if now > e then ''completed''
        else if s \<le> now \<and> now \<le> e then ''ongoing''
        else if now > d then ''registration_closed''
        else ''upcoming'')
   \<and> (getHackathonStatus now (Some s) (Some e) (Some d) = ''completed'') = (e < now)
   \<and> (getHackathonStatus now (Some s) (Some e) (Some d) = ''ongoing'') = (s \<le> now \<and> now \<le> e)
   \<and> (getHackathonStatus now (Some s) (Some e) (Some d) = ''registration_closed'') =
       (now \<le> e \<and> now < s \<and> d < now)
   \<and> (getHackathonStatus now (Some s) (Some e) (Some d) = ''upcoming'') =
       (now \<le> e \<and> now < s \<and> now \<le> d)
   \<and> getHackathonStatus (T + 2 * day_ms) (Some (T + day_ms)) (Some (T + 3 * day_ms))
         (Some (T + 12 * hour_ms)) = ''ongoing''
   \<and> T + 2 * day_ms > T + 12 * hour_ms"
proof -
  have valid: "getHackathonStatus now (Some s) (Some e) (Some d) =
       (if now > e then ''completed''
        else if s \<le> now \<and> now \<le> e then ''ongoing''
        else if now > d then ''registration_closed''
        else ''upcoming'')" for now s e d
    by (simp add: getHackathonStatus_def date_gt_def date_ge_def date_le_def)
  have range: "getHackathonStatus now start end' regDeadline \<in>
     {''completed'', ''ongoing'', ''registration_closed'', ''upcoming''}"
    by (simp add: getHackathonStatus_def)
  have c: "(getHackathonStatus now (Some s) (Some e) (Some d) = ''completed'') = (e < now)"
    unfolding valid by simp
  have o: "(getHackathonStatus now (Some s) (Some e) (Some d) = ''ongoing'') = (s \<le> now \<and> now \<le> e)"
    unfolding valid by auto
  have rc: "(getHackathonStatus now (Some s) (Some e) (Some d) = ''registration_closed'') =
       (now \<le> e \<and> now < s \<and> d < now)"
    unfolding valid by auto
  have up: "(getHackathonStatus now (Some s) (Some e) (Some d) = ''upcoming'') =
       (now \<le> e \<and> now < s \<and> now \<le> d)"
    unfolding valid by auto
  have ex: "getHackathonStatus (T + 2 * day_ms) (Some (T + day_ms)) (Some (T + 3 * day_ms))
         (Some (T + 12 * hour_ms)) = ''ongoing''"
    unfolding valid by (simp add: day_ms_def hour_ms_def)
  have late: "T + 2 * day_ms > T + 12 * hour_ms"
    by (simp add: day_ms_def hour_ms_def)
  show ?thesis
    by (intro conjI; (rule range | rule valid | rule c | rule o | rule rc | rule up | rule ex
        | rule late))
qed

section \<open>Claims about the dashboard aggregation\<close>

lemma foldl_more_popular:
  assumes "m \<in> set pre"
    and "\<forall>y\<in>set pre. participant_count y \<le> participant_count m"
    and "find (\<lambda>y. participant_count y = participant_count m) pre = Some m"
  shows "foldl more_popular m xs \<in> set (pre @ xs)
     \<and> (\<forall>y\<in>set (pre @ xs). participant_count y \<le> participant_count (foldl more_popular m xs))
     \<and> find (\<lambda>y. participant_count y = participant_count (foldl more_popular m xs)) (pre @ xs) =
         Some (foldl more_popular m xs)"
  using assms
proof (induction xs arbitrary: m pre)
  case Nil
  then show ?case by simp
next
  case (Cons x xs)
  let ?m = "more_popular m x"
  have 1: "?m \<in> set (pre @ [x])"
    using Cons.prems(1) by (simp add: more_popular_def)
  have 2: "\<forall>y\<in>set (pre @ [x]). participant_count y \<le> participant_count ?m"
    using Cons.prems(2) by (auto simp: more_popular_def)
  have 3: "find (\<lambda>y. participant_count y = participant_count ?m) (pre @ [x]) = Some ?m"
  proof (cases "participant_count x > participant_count m")
    case True
    then have "\<forall>y\<in>set pre. participant_count y \<noteq> participant_count x"
      using Cons.prems(2) by fastforce
    then have "find (\<lambda>y. participant_count y = participant_count x) pre = None"
      by (simp add: find_None_iff)
    with True show ?thesis
      by (simp add: more_popular_def find_append)
  next
    case False
    with Cons.prems(3) show ?thesis
      by (simp add: more_popular_def find_append)
  qed
  from Cons.IH [OF 1 2 3] show ?case by simp
qed

lemma mostPopular_Cons:
  "mostPopular (h # hs) = Some (foldl more_popular h hs)"
  by (simp add: mostPopular_def first_or_empty_def more_popular_def)

lemma mostPopular_first_max:
  assumes "hackathons \<noteq> []"
  shows "\<exists>r. mostPopular hackathons = Some r \<and> r \<in> set hackathons
     \<and> (\<forall>y\<in>set hackathons. participant_count y \<le> participant_count r)
     \<and> find (\<lambda>y. participant_count y = participant_count r) hackathons = Some r"
proof -
  from assms obtain h hs where hs: "hackathons = h # hs" by (cases hackathons) auto
  have "foldl more_popular h hs \<in> set ([h] @ hs)
     \<and> (\<forall>y\<in>set ([h] @ hs). participant_count y \<le> participant_count (foldl more_popular h hs))
     \<and> find (\<lambda>y. participant_count y = participant_count (foldl more_popular h hs)) ([h] @ hs) =
         Some (foldl more_popular h hs)"
    by (rule foldl_more_popular) simp_all
  then show ?thesis
    unfolding hs mostPopular_Cons by simp
qed

lemma example_counts:
  "participant_count hack_draft = 0"
  "participant_count hack_small = 3"
  "participant_count hack_big = 50"
  "participant_count hack_tie = 50"
  by (simp_all add: participant_count_def hack_draft_def hack_small_def hack_big_def hack_tie_def)

text \<open>
  C6, as the specification states it, fails in its last part: on an empty list the
  value of \<open>mostPopular\<close> is the empty object, not \<open>undefined\<close> or \<open>null\<close>.
\<close>

theorem empty_aggregation_counterexample:
  "mostPopular [] = Some empty_object \<and> mostPopular [] \<noteq> None"
  by (simp add: mostPopular_def first_or_empty_def)

text \<open>
  C6, amended. On an empty list the aggregation returns all four counts zero and total
  registrations zero, and the most popular event is the empty object \<open>{}\<close>: it has no
  participant list, and its participant count reads as zero.
\<close>

theorem empty_aggregation:
  "calculateStats [] =
     \<lparr>stat_totalHackathons = 0, stat_totalRegistrations = 0, stat_activeHackathons = 0,
      stat_completedHackathons = 0\<rparr>
   \<and> totalRegistrations [] = 0
   \<and> mostPopular [] = Some empty_object
   \<and> participants empty_object = None
   \<and> participant_count empty_object = 0"
  by (simp add: calculateStats_def totalRegistrations_def mostPopular_def first_or_empty_def
      empty_object_def participant_count_def)

text \<open>
  C7. On a non-empty list the most popular event is the first record, in list order,
  whose participant count is the maximum over the list: it stands at an index where
  every record has at most its count and every earlier record has strictly less. In
  particular a record with 50 participants, when every other record has fewer, is the
  one returned.
\<close>

theorem mostPopular_is_first_maximum:
  assumes "hackathons \<noteq> []"
  shows "mostPopular hackathons =
           find (\<lambda>h. participant_count h = Max (participant_count ` set hackathons)) hackathons
       \<and> (\<exists>i<length hackathons. mostPopular hackathons = Some (hackathons ! i)
            \<and> (\<forall>j<length hackathons.
                  participant_count (hackathons ! j) \<le> participant_count (hackathons ! i))
            \<and> (\<forall>j<i. participant_count (hackathons ! j) < participant_count (hackathons ! i)))
       \<and> (h \<in> set hackathons \<and> participant_count h = 50
            \<and> (\<forall>h'\<in>set hackathons. h' \<noteq> h \<longrightarrow> participant_count h' < 50)
            \<longrightarrow> mostPopular hackathons = Some h)"
proof -
  from mostPopular_first_max [OF assms] obtain r where
    r: "mostPopular hackathons = Some r" and mem: "r \<in> set hackathons"
    and ub: "\<forall>y\<in>set hackathons. participant_count y \<le> participant_count r"
    and first: "find (\<lambda>y. participant_count y = participant_count r) hackathons = Some r"
    by blast
  have mx: "Max (participant_count ` set hackathons) = participant_count r"
    using mem ub by (intro Max_eqI) auto
  have a: "mostPopular hackathons =
           find (\<lambda>h. participant_count h = Max (participant_count ` set hackathons)) hackathons"
    unfolding mx r first ..
  from first obtain i where i: "i < length hackathons" "hackathons ! i = r"
    and before: "\<forall>j<i. participant_count (hackathons ! j) \<noteq> participant_count r"
    unfolding find_Some_iff by blast
  have le: "\<forall>j<length hackathons. participant_count (hackathons ! j) \<le> participant_count r"
    using ub by simp
  have lt: "\<forall>j<i. participant_count (hackathons ! j) < participant_count r"
  proof (intro allI impI)
    fix j assume "j < i"
    with i(1) le before have "participant_count (hackathons ! j) \<le> participant_count r"
      and "participant_count (hackathons ! j) \<noteq> participant_count r"
      by simp_all
    then show "participant_count (hackathons ! j) < participant_count r" by simp
  qed
  have b: "\<exists>i<length hackathons. mostPopular hackathons = Some (hackathons ! i)
            \<and> (\<forall>j<length hackathons.
                  participant_count (hackathons ! j) \<le> participant_count (hackathons ! i))
            \<and> (\<forall>j<i. participant_count (hackathons ! j) < participant_count (hackathons ! i))"
    using i le lt r by blast
  have c: "h \<in> set hackathons \<and> participant_count h = 50
            \<and> (\<forall>h'\<in>set hackathons. h' \<noteq> h \<longrightarrow> participant_count h' < 50)
            \<longrightarrow> mostPopular hackathons = Some h"
  proof
    assume hyp: "h \<in> set hackathons \<and> participant_count h = 50
            \<and> (\<forall>h'\<in>set hackathons. h' \<noteq> h \<longrightarrow> participant_count h' < 50)"
    then have "participant_count h \<le> participant_count r" using ub by blast
    with hyp mem have "r = h" by force
    with r show "mostPopular hackathons = Some h" by simp
  qed
  from a b c show ?thesis by blast
qed

theorem mostPopular_is_first_maximum_witness:
  "[hack_draft, hack_small, hack_big, hack_tie] \<noteq> []
   \<and> mostPopular [hack_draft, hack_small, hack_big, hack_tie] = Some hack_big
   \<and> participant_count hack_tie = participant_count hack_big
   \<and> mostPopular [hack_small, hack_big, hack_draft] = Some hack_big"
proof -
  have tie: "mostPopular [hack_draft, hack_small, hack_big, hack_tie] = Some hack_big"
    using mostPopular_is_first_maximum [of "[hack_draft, hack_small, hack_big, hack_tie]", THEN conjunct1]
    by (simp add: example_counts)
  have single: "mostPopular [hack_small, hack_big, hack_draft] = Some hack_big"
    using mostPopular_is_first_maximum [of "[hack_small, hack_big, hack_draft]" hack_big,
        THEN conjunct2, THEN conjunct2]
    by (simp add: example_counts)
  from tie single show ?thesis
    by (simp add: example_counts)
qed

section \<open>Reconciliation on both paths of getUserRegistrations\<close>

text \<open>
  C1, as the specification states it, fails when the remote call fails: the cached list
  is returned as it is. After two accepted registrations for the same hackathon the
  cache holds two records with that identifier, and a listing while the server is down
  returns both, where deduplication of the empty remote list followed by the cache keeps
  one.
\<close>

theorem getUserRegistrations_fallback_counterexample:
  "fst (getUserRegistrations server_down
         (snd (registerForHackathon accepts ''t2'' ''hX'' form_data
                (snd (registerForHackathon accepts ''t1'' ''hX'' form_data (cache_of [])))))) =
     Inr (registrations_reply
            [mockRegistration ''hX'' \<lparr>uid = ''u1''\<rparr> ''t1'' form_data,
             mockRegistration ''hX'' \<lparr>uid = ''u1''\<rparr> ''t2'' form_data])
   \<and> map hackathon_id
        [mockRegistration ''hX'' \<lparr>uid = ''u1''\<rparr> ''t1'' form_data,
         mockRegistration ''hX'' \<lparr>uid = ''u1''\<rparr> ''t2'' form_data] =
       [Some (JStr ''hX''), Some (JStr ''hX'')]
   \<and> \<not> distinct (map hackathon_id
        [mockRegistration ''hX'' \<lparr>uid = ''u1''\<rparr> ''t1'' form_data,
         mockRegistration ''hX'' \<lparr>uid = ''u1''\<rparr> ''t2'' form_data])
   \<and> dedup_first hackathon_id
        ([] @ [mockRegistration ''hX'' \<lparr>uid = ''u1''\<rparr> ''t1'' form_data,
               mockRegistration ''hX'' \<lparr>uid = ''u1''\<rparr> ''t2'' form_data]) =
       [mockRegistration ''hX'' \<lparr>uid = ''u1''\<rparr> ''t1'' form_data]"
proof -
  let ?u = "\<lparr>uid = ''u1''\<rparr>"
  let ?w1 = "snd (registerForHackathon accepts ''t1'' ''hX'' form_data (cache_of []))"
  let ?w2 = "snd (registerForHackathon accepts ''t2'' ''hX'' form_data ?w1)"
  let ?a = "mockRegistration ''hX'' ?u ''t1'' form_data"
  let ?b = "mockRegistration ''hX'' ?u ''t2'' form_data"
  have acc: "accepts (register_request ''hX'' form_data) = Inr accepted_response"
    by (simp add: accepts_def)
  have u1: "currentUser ?w1 = Some ?u"
    by (simp add: currentUser_registerForHackathon cache_of_user)
  have c1: "localRegistrations ?w1 = [?a]"
    using localRegistrations_registerForHackathon
      [where w = "cache_of []" and u = ?u and net = accepts and hid = "''hX''"
         and payload = form_data and r = accepted_response and now = "''t1''"]
    by (simp add: cache_of_user acc example_cache)
  have c2: "localRegistrations ?w2 = [?a, ?b]"
    using localRegistrations_registerForHackathon
      [where w = ?w1 and u = ?u and net = accepts and hid = "''hX''"
         and payload = form_data and r = accepted_response and now = "''t2''"]
    by (simp add: u1 acc c1)
  have out: "fst (getUserRegistrations server_down ?w2) = Inr (registrations_reply [?a, ?b])"
    using getUserRegistrations_failure [where net = server_down and e = network_error and w = ?w2]
    by (simp add: server_down_def c2)
  have ka: "hackathon_id ?a = Some (JStr ''hX'')" and kb: "hackathon_id ?b = Some (JStr ''hX'')"
    by (simp_all add: hackathon_id_mockRegistration form_data_no_id)
  show ?thesis
    by (simp add: out ka kb)
qed

text \<open>
  C1, amended. When the remote call succeeds, the list that \<open>getUserRegistrations\<close>
  returns is the remote list followed by the local list, deduplicated by hackathon
  identifier with the first occurrence kept: no two entries of the output share a
  hackathon identifier, and for every identifier the entry that survives is the first
  remote entry carrying it, or, when the remote list has none, the first local one. When
  the remote call fails, the cached list is returned as it is; with the remote list taken
  as empty, that is the deduplicated list exactly when no two cached records share a
  hackathon identifier.
\<close>

theorem getUserRegistrations_reconciles:
  "(net registrations_request = Inr r \<longrightarrow>
      fst (getUserRegistrations net w) =
        Inr (registrations_reply
               (dedup_first hackathon_id (backendRegistrations r @ localRegistrations w)))
    \<and> distinct (map hackathon_id
               (dedup_first hackathon_id (backendRegistrations r @ localRegistrations w)))
    \<and> (\<forall>k. find (\<lambda>x. hackathon_id x = k)
               (dedup_first hackathon_id (backendRegistrations r @ localRegistrations w)) =
            (case find (\<lambda>x. hackathon_id x = k) (backendRegistrations r) of
               Some x \<Rightarrow> Some x
             | None \<Rightarrow> find (\<lambda>x. hackathon_id x = k) (localRegistrations w))))
   \<and> (net registrations_request = Inl e \<longrightarrow>
      fst (getUserRegistrations net w) = Inr (registrations_reply (localRegistrations w))
    \<and> (dedup_first hackathon_id ([] @ localRegistrations w) = localRegistrations w) =
        distinct (map hackathon_id (localRegistrations w)))"
proof (intro conjI impI)
  assume ok: "net registrations_request = Inr r"
  let ?out = "dedup_first hackathon_id (backendRegistrations r @ localRegistrations w)"
  show "fst (getUserRegistrations net w) = Inr (registrations_reply ?out)"
    using ok by (simp add: getUserRegistrations_success uniqueRegistrations_dedup_first)
  show "distinct (map hackathon_id ?out)"
    by (rule distinct_dedup_first)
  show "\<forall>k. find (\<lambda>x. hackathon_id x = k) ?out =
            (case find (\<lambda>x. hackathon_id x = k) (backendRegistrations r) of
               Some x \<Rightarrow> Some x
             | None \<Rightarrow> find (\<lambda>x. hackathon_id x = k) (localRegistrations w))"
    by (simp add: find_dedup_first find_append)
next
  assume failed: "net registrations_request = Inl e"
  show "fst (getUserRegistrations net w) = Inr (registrations_reply (localRegistrations w))"
    using failed by (simp add: getUserRegistrations_failure)
  show "(dedup_first hackathon_id ([] @ localRegistrations w) = localRegistrations w) =
        distinct (map hackathon_id (localRegistrations w))"
    by (simp add: dedup_first_fixed_iff)
qed

theorem getUserRegistrations_reconciles_witness:
  "server_lists [reg_server_h1, reg_server_h2] registrations_request =
     Inr (ok_response [reg_server_h1, reg_server_h2])
   \<and> fst (getUserRegistrations (server_lists [reg_server_h1, reg_server_h2])
          (cache_of [reg_cached_h1, reg_cached_h3])) =
     Inr (registrations_reply [reg_server_h1, reg_server_h2, reg_cached_h3])
   \<and> find (\<lambda>x. hackathon_id x = Some (JStr ''h1'')) [reg_server_h1, reg_server_h2, reg_cached_h3]
       = Some reg_server_h1
   \<and> server_down registrations_request = Inl network_error
   \<and> fst (getUserRegistrations server_down (cache_of [reg_cached_h1, reg_cached_h3])) =
       Inr (registrations_reply [reg_cached_h1, reg_cached_h3])
   \<and> dedup_first hackathon_id ([] @ [reg_cached_h1, reg_cached_h3]) = [reg_cached_h1, reg_cached_h3]"
proof -
  have ok: "fst (getUserRegistrations (server_lists [reg_server_h1, reg_server_h2])
          (cache_of [reg_cached_h1, reg_cached_h3])) =
     Inr (registrations_reply [reg_server_h1, reg_server_h2, reg_cached_h3])
   \<and> find (\<lambda>x. hackathon_id x = Some (JStr ''h1'')) [reg_server_h1, reg_server_h2, reg_cached_h3]
       = Some reg_server_h1"
    using getUserRegistrations_reconciles
      [where net = "server_lists [reg_server_h1, reg_server_h2]"
         and r = "ok_response [reg_server_h1, reg_server_h2]"
         and w = "cache_of [reg_cached_h1, reg_cached_h3]", THEN conjunct1]
    by (simp add: server_lists_def example_backend example_cache hackathon_id_examples)
  have off: "fst (getUserRegistrations server_down (cache_of [reg_cached_h1, reg_cached_h3])) =
       Inr (registrations_reply [reg_cached_h1, reg_cached_h3])
   \<and> dedup_first hackathon_id ([] @ [reg_cached_h1, reg_cached_h3]) = [reg_cached_h1, reg_cached_h3]"
    using getUserRegistrations_reconciles
      [where net = server_down and e = network_error
         and w = "cache_of [reg_cached_h1, reg_cached_h3]", THEN conjunct2]
    by (simp add: server_down_def example_cache hackathon_id_examples)
  have up: "server_lists [reg_server_h1, reg_server_h2] registrations_request =
     Inr (ok_response [reg_server_h1, reg_server_h2])"
    by (simp add: server_lists_def)
  have down: "server_down registrations_request = Inl network_error"
    by (simp add: server_down_def)
  from up ok down off show ?thesis by blast
qed

end
